theory Spec2Isabelle
  imports Complex_Main
begin

section \<open>JavaScript numbers\<close>

text \<open>
  The module computes with JavaScript numbers only. A number is modelled as an exact
  real, or one of the three special values of IEEE 754 that the arithmetic of the
  module can produce: the two infinities and NaN. Finite arithmetic is exact: the
  rounding, overflow and underflow of binary64 are not part of the model, and the two
  zeros of IEEE 754 are one value \<open>Fin 0\<close> (a division of a non-zero number
  by zero gives the infinity with the sign of the dividend).
  A variable that may hold \<open>undefined\<close> has type \<open>jsval\<close>, with
  \<open>None\<close> for \<open>undefined\<close>.
\<close>

datatype jsnum = Fin real | PInf | NInf | NaN

type_synonym jsval = "jsnum option"

text \<open>ToNumber: \<open>undefined\<close> becomes NaN in arithmetic.\<close>

fun to_number :: "jsval \<Rightarrow> jsnum" where
  "to_number None = NaN"
| "to_number (Some x) = x"

text \<open>ToBoolean: \<open>undefined\<close>, zero and NaN are falsy.\<close>

fun truthy :: "jsval \<Rightarrow> bool" where
  "truthy None = False"
| "truthy (Some (Fin x)) = (x \<noteq> 0)"
| "truthy (Some NaN) = False"
| "truthy (Some PInf) = True"
| "truthy (Some NInf) = True"

text \<open>\<open>a || b\<close>: the left operand when it is truthy, else the right one.\<close>

definition js_or :: "jsval \<Rightarrow> jsval \<Rightarrow> jsval" where
  "js_or a b = (if truthy a then a else b)"

text \<open>Unary minus.\<close>

fun jneg :: "jsnum \<Rightarrow> jsnum" where
  "jneg (Fin x) = Fin (- x)"
| "jneg PInf = NInf"
| "jneg NInf = PInf"
| "jneg NaN = NaN"

text \<open>\<open>a + b\<close> and \<open>a - b\<close> on numbers.\<close>

fun jadd :: "jsnum \<Rightarrow> jsnum \<Rightarrow> jsnum" where
  "jadd (Fin x) (Fin y) = Fin (x + y)"
| "jadd NaN _ = NaN"
| "jadd _ NaN = NaN"
| "jadd PInf NInf = NaN"
| "jadd NInf PInf = NaN"
| "jadd PInf _ = PInf"
| "jadd NInf _ = NInf"
| "jadd _ PInf = PInf"
| "jadd _ NInf = NInf"

definition jsub :: "jsnum \<Rightarrow> jsnum \<Rightarrow> jsnum" where
  "jsub a b = jadd a (jneg b)"

text \<open>The sign of a number that is not NaN, as \<open>-1\<close>, \<open>0\<close> or \<open>1\<close>.\<close>

fun jsign :: "jsnum \<Rightarrow> real" where
  "jsign (Fin x) = sgn x"
| "jsign PInf = 1"
| "jsign NInf = - 1"
| "jsign NaN = 0"

definition inf_of_sign :: "real \<Rightarrow> jsnum" where
  "inf_of_sign s = (if s = 0 then NaN else if 0 < s then PInf else NInf)"

text \<open>\<open>a * b\<close>: zero times an infinity is NaN.\<close>

fun jmul :: "jsnum \<Rightarrow> jsnum \<Rightarrow> jsnum" where
  "jmul (Fin x) (Fin y) = Fin (x * y)"
| "jmul NaN _ = NaN"
| "jmul _ NaN = NaN"
| "jmul a b = inf_of_sign (jsign a * jsign b)"

text \<open>
  \<open>a / b\<close>: a division by zero gives an infinity, or NaN for \<open>0 / 0\<close>;
  a finite number over an infinity is zero; an infinity over an infinity is NaN.
\<close>

fun jdiv :: "jsnum \<Rightarrow> jsnum \<Rightarrow> jsnum" where
  "jdiv (Fin x) (Fin y) = (if y = 0 then inf_of_sign (sgn x) else Fin (x / y))"
| "jdiv NaN _ = NaN"
| "jdiv _ NaN = NaN"
| "jdiv (Fin x) _ = Fin 0"
| "jdiv a (Fin y) = inf_of_sign (jsign a * (if y < 0 then - 1 else 1))"
| "jdiv _ _ = NaN"

text \<open>The comparisons \<open><=\<close>, \<open><\<close> and \<open>>\<close>: false when an operand is NaN.\<close>

fun jle :: "jsnum \<Rightarrow> jsnum \<Rightarrow> bool" where
  "jle (Fin x) (Fin y) = (x \<le> y)"
| "jle NaN _ = False"
| "jle _ NaN = False"
| "jle NInf _ = True"
| "jle _ PInf = True"
| "jle _ _ = False"

fun jlt :: "jsnum \<Rightarrow> jsnum \<Rightarrow> bool" where
  "jlt (Fin x) (Fin y) = (x < y)"
| "jlt NaN _ = False"
| "jlt _ NaN = False"
| "jlt PInf _ = False"
| "jlt _ NInf = False"
| "jlt _ _ = True"

definition jgt :: "jsnum \<Rightarrow> jsnum \<Rightarrow> bool" where
  "jgt a b = jlt b a"

text \<open>The functions of \<open>Math\<close> that the module calls.\<close>

fun Math_abs :: "jsnum \<Rightarrow> jsnum" where
  "Math_abs (Fin x) = Fin \<bar>x\<bar>"
| "Math_abs PInf = PInf"
| "Math_abs NInf = PInf"
| "Math_abs NaN = NaN"

fun Math_floor :: "jsnum \<Rightarrow> jsnum" where
  "Math_floor (Fin x) = Fin (of_int \<lfloor>x\<rfloor>)"
| "Math_floor a = a"

fun Math_ceil :: "jsnum \<Rightarrow> jsnum" where
  "Math_ceil (Fin x) = Fin (of_int \<lceil>x\<rceil>)"
| "Math_ceil a = a"

fun Math_log :: "jsnum \<Rightarrow> jsnum" where
  "Math_log (Fin x) = (if x < 0 then NaN else if x = 0 then NInf else Fin (ln x))"
| "Math_log PInf = PInf"
| "Math_log NInf = NaN"
| "Math_log NaN = NaN"

definition Math_LN10 :: jsnum where
  "Math_LN10 = Fin (ln 10)"

text \<open>\<open>Math.pow(10, y)\<close>, the only use of \<open>Math.pow\<close> in the module.\<close>

fun Math_pow10 :: "jsnum \<Rightarrow> jsnum" where
  "Math_pow10 (Fin y) = Fin (10 powr y)"
| "Math_pow10 PInf = PInf"
| "Math_pow10 NInf = Fin 0"
| "Math_pow10 NaN = NaN"

text \<open>\<open>Math.min(a, b)\<close>: NaN when an operand is NaN.\<close>

fun Math_min :: "jsnum \<Rightarrow> jsnum \<Rightarrow> jsnum" where
  "Math_min NaN _ = NaN"
| "Math_min _ NaN = NaN"
| "Math_min a b = (if jle a b then a else b)"

section \<open>The coordinate scale calculator\<close>

definition SNAP_VALUES :: "jsnum list" where
  "SNAP_VALUES = [Fin 1, Fin 2, Fin 5, Fin 10]"

definition DEFAULT_PIXELS_PER_STEP :: jsnum where
  "DEFAULT_PIXELS_PER_STEP = Fin 88"

text \<open>An array read \<open>xs[i]\<close>: \<open>undefined\<close> past the end.\<close>

definition array_get :: "jsnum list \<Rightarrow> nat \<Rightarrow> jsval" where
  "array_get xs i = (if i < length xs then Some (xs ! i) else None)"

text \<open>
  \<open>getDigits\<close>: the logarithm to base ten is taken as 1 for the number zero, then
  floored and used as the exponent of ten.
\<close>

definition getDigits :: "jsnum \<Rightarrow> jsnum" where
  "getDigits number =
     (let logNumberDividedLN10 =
            (if number = Fin 0 then Fin 1 else jdiv (Math_log (Math_abs number)) Math_LN10)
      in Math_pow10 (Math_floor logNumberDividedLN10))"

text \<open>
  The loop of \<open>getSnappedNumber\<close>, from index \<open>i\<close> up to \<open>t\<close>, with
  the current value of the variable \<open>snapNumber\<close>. The loop assigns
  \<open>snapNumber\<close> before it tests, so the value at the \<open>break\<close> and the value
  after the last round are both the last element read.
\<close>

function getSnappedNumber_loop :: "jsnum \<Rightarrow> nat \<Rightarrow> nat \<Rightarrow> jsval \<Rightarrow> jsval" where
  "getSnappedNumber_loop number i t snapNumber =
     (if i < t then
        (let snapNumber' = array_get SNAP_VALUES i;
             guideValue = jdiv (jadd (to_number snapNumber')
                                 (to_number (js_or (array_get SNAP_VALUES (i + 1)) snapNumber')))
                            (Fin 2)
         in if jle number guideValue then snapNumber'
            else getSnappedNumber_loop number (i + 1) t snapNumber')
      else snapNumber)"
  by pat_completeness auto
termination
  by (relation "measure (\<lambda>(number, i, t, snapNumber). t - i)") auto

definition getSnappedNumber :: "jsnum \<Rightarrow> jsval" where
  "getSnappedNumber number = getSnappedNumber_loop number 0 (length SNAP_VALUES) None"

definition getNormalizedStep :: "jsnum \<Rightarrow> jsnum" where
  "getNormalizedStep step =
     (let placeNumber = getDigits step;
          simplifiedStepValue = jdiv step placeNumber
      in jmul (to_number (getSnappedNumber simplifiedStepValue)) placeNumber)"

record limit =
  limit_min :: jsnum
  limit_max :: jsnum

definition getNormalizedLimit :: "jsnum \<Rightarrow> jsnum \<Rightarrow> jsnum \<Rightarrow> limit" where
  "getNormalizedLimit min0 max0 step =
     (let placeNumber = jdiv (Fin 1) (Math_min (getDigits max0) (getDigits step));
          fixedStep = jmul step placeNumber;
          max1 = jdiv (jmul (Math_ceil (jdiv (jmul max0 placeNumber) fixedStep)) fixedStep)
                   placeNumber;
          min1 =
            (if jgt min0 step then
               jdiv (jmul (Math_floor (jdiv (jmul min0 placeNumber) fixedStep)) fixedStep)
                 placeNumber
             else if jlt min0 (Fin 0) then
               jdiv (jneg (jmul (Math_ceil (jdiv (jmul (Math_abs min0) placeNumber) fixedStep))
                             fixedStep))
                 placeNumber
             else Fin 0)
      in \<lparr>limit_min = min1, limit_max = max1\<rparr>)"

definition getNormalizedStepCount :: "jsnum \<Rightarrow> jsnum \<Rightarrow> jsnum" where
  "getNormalizedStepCount limitSize step =
     (let multiplier = jdiv (Fin 1) (Math_min (getDigits limitSize) (getDigits step))
      in jdiv (jmul limitSize multiplier) (jmul step multiplier))"

record scale =
  limit :: limit
  step :: jsnum
  stepCount :: jsnum

definition getNormalizedScale :: "scale \<Rightarrow> scale" where
  "getNormalizedScale sc =
     (let step1 = getNormalizedStep (step sc);
          edge = getNormalizedLimit (limit_min (limit sc)) (limit_max (limit sc)) step1;
          limitSize = Math_abs (jsub (limit_max edge) (limit_min edge));
          stepCount1 = getNormalizedStepCount limitSize step1
      in \<lparr>limit = \<lparr>limit_min = limit_min edge, limit_max = limit_max edge\<rparr>,
          step = step1,
          stepCount = stepCount1\<rparr>)"

text \<open>
  Modelled from the spec: \<open>tui.util.isNumber\<close>, a helper of the library
  tui-code-snippet that the module calls and that is not part of the sources. The spec
  reads the test as "\<open>minimumStepSize\<close> is provided"; on the values of this model
  (a number or \<open>undefined\<close>) the library's type test says the same.
\<close>

definition isNumber :: "jsval \<Rightarrow> bool" where
  "isNumber v = (v \<noteq> None)"

definition getRoughScale :: "jsnum \<Rightarrow> jsnum \<Rightarrow> jsnum \<Rightarrow> jsval \<Rightarrow> jsval \<Rightarrow> scale" where
  "getRoughScale min0 max0 offsetSize stepCount0 minimumStepSize =
     (let limitSize = Math_abs (jsub max0 min0);
          valuePerPixel = jdiv limitSize offsetSize;
          stepCount1 =
            (if \<not> truthy stepCount0 then Math_ceil (jdiv offsetSize DEFAULT_PIXELS_PER_STEP)
             else to_number stepCount0);
          pixelsPerStep = jdiv offsetSize stepCount1;
          step0 = jmul valuePerPixel pixelsPerStep;
          clamp = (isNumber minimumStepSize \<and> jlt step0 (to_number minimumStepSize));
          step1 = (if clamp then to_number minimumStepSize else step0);
          stepCount2 = (if clamp then jdiv limitSize step1 else stepCount1)
      in \<lparr>limit = \<lparr>limit_min = min0, limit_max = max0\<rparr>,
          step = step1,
          stepCount = stepCount2\<rparr>)"

record options =
  opt_min :: jsnum
  opt_max :: jsnum
  opt_offsetSize :: jsnum
  opt_stepCount :: jsval
  opt_minimumStepSize :: jsval

definition coordinateScaleCalculator :: "options \<Rightarrow> scale" where
  "coordinateScaleCalculator opts =
     (let min0 = opt_min opts;
          max0 = opt_max opts;
          offsetSize = opt_offsetSize opts;
          stepCount0 = opt_stepCount opts;
          minimumStepSize = opt_minimumStepSize opts;
          sc = getRoughScale min0 max0 offsetSize stepCount0 minimumStepSize
      in getNormalizedScale sc)"

text \<open>
  The outcome of a call as a value: \<open>Inl\<close> would carry the message of a thrown
  error. The module has no \<open>throw\<close> statement and tests none of its arguments, and
  every operator and \<open>Math\<close> function it applies is defined on all numbers, so
  the only outcome is a returned scale.
\<close>

definition coordinateScaleCalculator_call :: "options \<Rightarrow> string + scale" where
  "coordinateScaleCalculator_call opts = Inr (coordinateScaleCalculator opts)"

section \<open>Requests\<close>

text \<open>The request that feeds the limit of a result back as \<open>min\<close> and \<open>max\<close>.\<close>

definition renormalize :: "options \<Rightarrow> options" where
  "renormalize opts =
     opts\<lparr>opt_min := limit_min (limit (coordinateScaleCalculator opts)),
          opt_max := limit_max (limit (coordinateScaleCalculator opts))\<rparr>"

text \<open>The requests that the examples below evaluate.\<close>

definition scenario_A :: options where
  "scenario_A = \<lparr>opt_min = Fin 0, opt_max = Fin 155, opt_offsetSize = Fin 264,
                  opt_stepCount = None, opt_minimumStepSize = None\<rparr>"

definition inverted_request :: options where
  "inverted_request = \<lparr>opt_min = Fin 10, opt_max = Fin 0, opt_offsetSize = Fin 264,
                         opt_stepCount = None, opt_minimumStepSize = None\<rparr>"

definition zero_offset_request :: options where
  "zero_offset_request = \<lparr>opt_min = Fin 0, opt_max = Fin 155, opt_offsetSize = Fin 0,
                            opt_stepCount = None, opt_minimumStepSize = None\<rparr>"

definition widening_request :: options where
  "widening_request = \<lparr>opt_min = Fin 0, opt_max = Fin 101, opt_offsetSize = Fin 264,
                         opt_stepCount = None, opt_minimumStepSize = None\<rparr>"

section \<open>The order of magnitude\<close>

lemma floor_log10_bounds:
  fixes x :: real
  assumes "x \<noteq> 0"
  shows "10 powr of_int \<lfloor>ln \<bar>x\<bar> / ln 10\<rfloor> \<le> \<bar>x\<bar>"
    and "\<bar>x\<bar> < 10 * 10 powr of_int \<lfloor>ln \<bar>x\<bar> / ln 10\<rfloor>"
proof -
  let ?L = "ln \<bar>x\<bar> / ln 10"
  have pos: "0 < \<bar>x\<bar>" using assms by simp
  have L: "?L = log 10 \<bar>x\<bar>" by (simp add: log_def)
  have "of_int \<lfloor>?L\<rfloor> \<le> log 10 \<bar>x\<bar>" unfolding L by simp
  then show "10 powr of_int \<lfloor>?L\<rfloor> \<le> \<bar>x\<bar>"
    using pos by (simp add: powr_le_iff)
  have "log 10 \<bar>x\<bar> < of_int \<lfloor>?L\<rfloor> + 1" unfolding L by linarith
  then have "\<bar>x\<bar> < 10 powr (of_int \<lfloor>?L\<rfloor> + 1)"
    using pos by (simp add: less_powr_iff)
  then show "\<bar>x\<bar> < 10 * 10 powr of_int \<lfloor>?L\<rfloor>"
    by (simp add: powr_add)
qed

lemma floor_log10_eq:
  fixes x :: real
  assumes "10 powr of_int k \<le> \<bar>x\<bar>" and "\<bar>x\<bar> < 10 * 10 powr of_int k"
  shows "\<lfloor>ln \<bar>x\<bar> / ln 10\<rfloor> = k"
proof -
  have pos: "0 < \<bar>x\<bar>" using assms(1) powr_gt_zero [of 10 "of_int k"] by linarith
  have L: "ln \<bar>x\<bar> / ln 10 = log 10 \<bar>x\<bar>" by (simp add: log_def)
  have up: "\<bar>x\<bar> < 10 powr (of_int k + 1)" using assms(2) by (simp add: powr_add)
  have "of_int k \<le> log 10 \<bar>x\<bar>" using assms(1) pos by (simp add: powr_le_iff)
  moreover have "log 10 \<bar>x\<bar> < of_int k + 1" using up pos by (simp add: less_powr_iff)
  ultimately show ?thesis unfolding L by (simp add: floor_unique)
qed

lemma getDigits_zero: "getDigits (Fin 0) = Fin 10"
  by (simp add: getDigits_def)

lemma getDigits_Fin:
  "x \<noteq> 0 \<Longrightarrow> getDigits (Fin x) = Fin (10 powr of_int \<lfloor>ln \<bar>x\<bar> / ln 10\<rfloor>)"
  by (simp add: getDigits_def Math_LN10_def)

lemma getDigits_eval:
  assumes "10 powr of_int k \<le> \<bar>x\<bar>" and "\<bar>x\<bar> < 10 * 10 powr of_int k"
  shows "getDigits (Fin x) = Fin (10 powr of_int k)"
proof -
  have "x \<noteq> 0" using assms(1) powr_gt_zero [of 10 "of_int k"] by auto
  then show ?thesis using floor_log10_eq [OF assms] by (simp add: getDigits_Fin)
qed

lemma getDigits_ex:
  "\<exists>k::int. getDigits (Fin x) = Fin (10 powr of_int k) \<and>
     (x \<noteq> 0 \<longrightarrow> 10 powr of_int k \<le> \<bar>x\<bar> \<and> \<bar>x\<bar> < 10 * 10 powr of_int k)"
proof (cases "x = 0")
  case True
  have "getDigits (Fin 0) = Fin (10 powr of_int 1)" by (simp add: getDigits_zero)
  then show ?thesis using True by blast
next
  case False
  then show ?thesis using floor_log10_bounds [OF False] getDigits_Fin [OF False] by blast
qed

lemma getDigits_pos: "\<exists>d. getDigits (Fin x) = Fin d \<and> 0 < d"
proof -
  obtain k :: int where "getDigits (Fin x) = Fin (10 powr of_int k)"
    using getDigits_ex [of x] by blast
  moreover have "(0::real) < 10 powr of_int k" by simp
  ultimately show ?thesis by blast
qed

text \<open>
  C3. The order of magnitude of the number zero. The code gives zero the logarithm 1,
  and ten to the power 1 is 10: \<open>getDigits(0)\<close> is not 1.
\<close>

theorem getDigits_zero_not_one: "getDigits (Fin 0) \<noteq> Fin 1"
  by (simp add: getDigits_zero)

text \<open>
  C3, as amended: \<open>getDigits\<close> applied to the number zero returns 10.
\<close>

theorem getDigits_zero_is_ten: "getDigits (Fin 0) = Fin 10"
  by (simp add: getDigits_def)

section \<open>Snapping to a reference value\<close>

lemma loop4: "getSnappedNumber_loop number 4 4 s = s"
  by (subst getSnappedNumber_loop.simps) simp

lemma loop3: "getSnappedNumber_loop number 3 4 s = Some (Fin 10)"
  by (subst getSnappedNumber_loop.simps)
     (simp add: loop4 SNAP_VALUES_def array_get_def js_or_def Let_def)

lemma loop2:
  "getSnappedNumber_loop number 2 4 s =
     (if jle number (Fin (15/2)) then Some (Fin 5) else Some (Fin 10))"
  by (subst getSnappedNumber_loop.simps)
     (simp add: loop3 SNAP_VALUES_def array_get_def js_or_def Let_def)

lemma loop1:
  "getSnappedNumber_loop number 1 4 s =
     (if jle number (Fin (7/2)) then Some (Fin 2)
      else if jle number (Fin (15/2)) then Some (Fin 5) else Some (Fin 10))"
  by (subst getSnappedNumber_loop.simps)
     (simp add: loop2 SNAP_VALUES_def array_get_def js_or_def Let_def)

lemma getSnappedNumber_cases:
  "getSnappedNumber number =
     (if jle number (Fin (3/2)) then Some (Fin 1)
      else if jle number (Fin (7/2)) then Some (Fin 2)
      else if jle number (Fin (15/2)) then Some (Fin 5) else Some (Fin 10))"
  unfolding getSnappedNumber_def
  by (subst getSnappedNumber_loop.simps)
     (simp add: loop1 SNAP_VALUES_def array_get_def js_or_def Let_def)

lemma getSnappedNumber_Fin:
  "getSnappedNumber (Fin v) =
     Some (Fin (if v \<le> 3/2 then 1 else if v \<le> 7/2 then 2 else if v \<le> 15/2 then 5 else 10))"
  by (simp add: getSnappedNumber_cases)

text \<open>
  C9. \<open>getSnappedNumber\<close> is total (the loop is a terminating recursion) and returns
  an element of \<open>SNAP_VALUES\<close> for every number. For a real \<open>v\<close> it returns
  the first reference value whose midpoint with its successor is at least \<open>v\<close>
  (midpoints 1.5, 3.5 and 7.5), and 10 when \<open>v\<close> is above 7.5, also above 10;
  a value up to 1.5, zero and the negative numbers among them, gives 1. NaN, which
  no comparison accepts, leaves the loop at its end with 10. The read one
  past the end of \<open>SNAP_VALUES\<close> is \<open>undefined\<close> and \<open>||\<close> replaces it
  by the last element, whose midpoint with itself is 10.
\<close>

theorem getSnappedNumber_total:
  "(\<exists>r. getSnappedNumber number = Some r \<and> r \<in> set SNAP_VALUES) \<and>
   getSnappedNumber (Fin v) =
     Some (Fin (if v \<le> 3/2 then 1 else if v \<le> 7/2 then 2 else if v \<le> 15/2 then 5 else 10)) \<and>
   getSnappedNumber PInf = Some (Fin 10) \<and>
   getSnappedNumber NInf = Some (Fin 1) \<and>
   getSnappedNumber NaN = Some (Fin 10) \<and>
   array_get SNAP_VALUES (length SNAP_VALUES) = None \<and>
   js_or (array_get SNAP_VALUES (length SNAP_VALUES)) (Some (Fin 10)) = Some (Fin 10) \<and>
   jdiv (jadd (Fin 10) (Fin 10)) (Fin 2) = Fin 10"
proof -
  have "\<exists>r. getSnappedNumber number = Some r \<and> r \<in> set SNAP_VALUES"
    by (simp add: getSnappedNumber_cases SNAP_VALUES_def)
  moreover have "getSnappedNumber PInf = Some (Fin 10)"
    by (simp add: getSnappedNumber_cases)
  moreover have "getSnappedNumber NInf = Some (Fin 1)"
    by (simp add: getSnappedNumber_cases)
  moreover have "getSnappedNumber NaN = Some (Fin 10)"
    by (simp add: getSnappedNumber_cases)
  moreover have "array_get SNAP_VALUES (length SNAP_VALUES) = None"
    by (simp add: array_get_def)
  moreover have "js_or (array_get SNAP_VALUES (length SNAP_VALUES)) (Some (Fin 10)) = Some (Fin 10)"
    by (simp add: array_get_def js_or_def)
  ultimately show ?thesis
    by (simp add: getSnappedNumber_Fin)
qed

section \<open>Normalized step, limit and step count on finite numbers\<close>

lemma getNormalizedStep_Fin:
  assumes "getDigits (Fin s) = Fin d" and "0 < d"
  shows "getNormalizedStep (Fin s) =
     Fin ((if s / d \<le> 3/2 then 1 else if s / d \<le> 7/2 then 2
           else if s / d \<le> 15/2 then 5 else 10) * d)"
  using assms by (simp add: getNormalizedStep_def getSnappedNumber_Fin)

lemma getNormalizedLimit_Fin:
  assumes "0 < s"
  shows "getNormalizedLimit (Fin a) (Fin b) (Fin s) =
     \<lparr>limit_min = Fin (if s < a then of_int \<lfloor>a / s\<rfloor> * s
                         else if a < 0 then - (of_int \<lceil>\<bar>a\<bar> / s\<rceil> * s) else 0),
      limit_max = Fin (of_int \<lceil>b / s\<rceil> * s)\<rparr>"
proof -
  obtain d1 where d1: "getDigits (Fin b) = Fin d1" "0 < d1" using getDigits_pos by blast
  obtain d2 where d2: "getDigits (Fin s) = Fin d2" "0 < d2" using getDigits_pos by blast
  define p where "p = 1 / min d1 d2"
  have p: "0 < p" using d1 d2 by (simp add: p_def)
  have m: "Math_min (Fin d1) (Fin d2) = Fin (min d1 d2)" by (simp add: min_def)
  have pn: "jdiv (Fin 1) (Math_min (getDigits (Fin b)) (getDigits (Fin s))) = Fin p"
    using d1 d2 by (simp add: m p_def)
  have sp: "s * p \<noteq> 0" using p assms by simp
  have q: "x * p / (s * p) = x / s" for x using p by simp
  have r: "y * (s * p) / p = y * s" for y using p by simp
  show ?thesis
    unfolding getNormalizedLimit_def pn Let_def
    using sp p by (simp add: q r jgt_def)
qed

lemma getNormalizedStepCount_Fin:
  "getNormalizedStepCount (Fin l) (Fin s) = jdiv (Fin l) (Fin s)"
proof -
  obtain d1 where d1: "getDigits (Fin l) = Fin d1" "0 < d1" using getDigits_pos by blast
  obtain d2 where d2: "getDigits (Fin s) = Fin d2" "0 < d2" using getDigits_pos by blast
  define p where "p = 1 / min d1 d2"
  have p: "0 < p" using d1 d2 by (simp add: p_def)
  have m: "Math_min (Fin d1) (Fin d2) = Fin (min d1 d2)" by (simp add: min_def)
  have pn: "jdiv (Fin 1) (Math_min (getDigits (Fin l)) (getDigits (Fin s))) = Fin p"
    using d1 d2 by (simp add: m p_def)
  have sg: "sgn (l * p) = sgn l" using p by (simp add: sgn_mult)
  show ?thesis
    unfolding getNormalizedStepCount_def pn Let_def
    using p by (simp add: sg)
qed

section \<open>The rough scale and the normalized scale on finite numbers\<close>

lemma default_stepCount_pos:
  fixes w :: real
  assumes "0 < w"
  shows "0 < \<lceil>w / 88\<rceil>"
  using assms by (simp add: ceiling_less_iff [symmetric] less_ceiling_iff)

lemma getRoughScale_limit:
  "limit (getRoughScale (Fin a) (Fin b) (Fin w) h m) = \<lparr>limit_min = Fin a, limit_max = Fin b\<rparr>"
  by (simp add: getRoughScale_def Let_def)

lemma getNormalizedScale_Fin:
  assumes "limit sc = \<lparr>limit_min = Fin a, limit_max = Fin b\<rparr>" and "step sc = Fin r"
    and "getNormalizedStep (Fin r) = Fin s" and "0 < s"
    and "lo = (if s < a then of_int \<lfloor>a / s\<rfloor> * s
               else if a < 0 then - (of_int \<lceil>\<bar>a\<bar> / s\<rceil> * s) else 0)"
    and "hi = of_int \<lceil>b / s\<rceil> * s"
  shows "getNormalizedScale sc =
           \<lparr>limit = \<lparr>limit_min = Fin lo, limit_max = Fin hi\<rparr>, step = Fin s,
            stepCount = Fin (\<bar>hi - lo\<bar> / s)\<rparr>"
proof -
  have s: "s \<noteq> 0" using assms(4) by simp
  have e: "getNormalizedLimit (Fin a) (Fin b) (Fin s) = \<lparr>limit_min = Fin lo, limit_max = Fin hi\<rparr>"
    unfolding assms(5,6) by (rule getNormalizedLimit_Fin [OF assms(4)])
  show ?thesis
    using s by (simp add: getNormalizedScale_def Let_def assms(1,2,3) e jsub_def
        getNormalizedStepCount_Fin)
qed

section \<open>Evaluation at concrete requests\<close>

lemma getRoughScale_default:
  assumes "0 < w"
  shows "step (getRoughScale (Fin a) (Fin b) (Fin w) None None) =
           Fin (\<bar>b - a\<bar> / w * (w / of_int \<lceil>w / 88\<rceil>))"
proof -
  have "\<lceil>w / 88\<rceil> \<noteq> 0" using default_stepCount_pos [OF assms] by arith
  then have "of_int \<lceil>w / 88\<rceil> \<noteq> (0::real)" by simp
  then show ?thesis
    using assms by (simp add: getRoughScale_def Let_def isNumber_def jsub_def
        DEFAULT_PIXELS_PER_STEP_def)
qed

lemma coordinateScaleCalculator_eval:
  assumes "opt_min opts = Fin a" and "opt_max opts = Fin b"
    and "opt_offsetSize opts = Fin w" and "0 < w"
    and "opt_stepCount opts = None" and "opt_minimumStepSize opts = None"
    and "\<bar>b - a\<bar> / w * (w / of_int \<lceil>w / 88\<rceil>) = r"
    and "10 powr of_int k \<le> \<bar>r\<bar>" and "\<bar>r\<bar> < 10 * 10 powr of_int k"
    and "(if r / 10 powr of_int k \<le> 3/2 then 1 else if r / 10 powr of_int k \<le> 7/2 then 2
           else if r / 10 powr of_int k \<le> 15/2 then 5 else 10) * 10 powr of_int k = s"
    and "(if s < a then of_int \<lfloor>a / s\<rfloor> * s
               else if a < 0 then - (of_int \<lceil>\<bar>a\<bar> / s\<rceil> * s) else 0) = lo"
    and "of_int \<lceil>b / s\<rceil> * s = hi"
  shows "coordinateScaleCalculator opts =
           \<lparr>limit = \<lparr>limit_min = Fin lo, limit_max = Fin hi\<rparr>, step = Fin s,
            stepCount = Fin (\<bar>hi - lo\<bar> / s)\<rparr>"
proof -
  let ?sc = "getRoughScale (Fin a) (Fin b) (Fin w) None None"
  have l: "limit ?sc = \<lparr>limit_min = Fin a, limit_max = Fin b\<rparr>"
    by (rule getRoughScale_limit)
  have r: "step ?sc = Fin r"
    using getRoughScale_default [OF assms(4), where a = a and b = b] assms(7) by simp
  have d: "getDigits (Fin r) = Fin (10 powr of_int k)"
    by (rule getDigits_eval [OF assms(8,9)])
  have p: "(0::real) < 10 powr of_int k" by simp
  have s: "getNormalizedStep (Fin r) = Fin s"
    using getNormalizedStep_Fin [OF d p] assms(10) by simp
  have "0 < (if r / 10 powr of_int k \<le> 3/2 then 1 else if r / 10 powr of_int k \<le> 7/2 then 2
           else if r / 10 powr of_int k \<le> 15/2 then 5 else (10::real))" by simp
  then have s0: "0 < s" using p assms(10) [symmetric] by (simp only: mult_pos_pos)
  have "coordinateScaleCalculator opts = getNormalizedScale ?sc"
    by (simp add: coordinateScaleCalculator_def assms(1,2,3,5,6))
  also have "\<dots> = \<lparr>limit = \<lparr>limit_min = Fin lo, limit_max = Fin hi\<rparr>, step = Fin s,
            stepCount = Fin (\<bar>hi - lo\<bar> / s)\<rparr>"
    by (rule getNormalizedScale_Fin [OF l r s s0 assms(11) [symmetric] assms(12) [symmetric]])
  finally show ?thesis .
qed

lemma scenario_A_result:
  "coordinateScaleCalculator scenario_A =
     \<lparr>limit = \<lparr>limit_min = Fin 0, limit_max = Fin 200\<rparr>, step = Fin 50, stepCount = Fin 4\<rparr>"
  using coordinateScaleCalculator_eval
      [where opts = scenario_A and a = 0 and b = 155 and w = 264
         and r = "155/3" and k = 1 and s = 50 and lo = 0 and hi = 200]
  by (simp add: scenario_A_def)

lemma inverted_request_result:
  "coordinateScaleCalculator inverted_request =
     \<lparr>limit = \<lparr>limit_min = Fin 10, limit_max = Fin 0\<rparr>, step = Fin 2, stepCount = Fin 5\<rparr>"
  using coordinateScaleCalculator_eval
      [where opts = inverted_request and a = 10 and b = 0 and w = 264
         and r = "10/3" and k = 0 and s = 2 and lo = 10 and hi = 0]
  by (simp add: inverted_request_def)

lemma widening_request_result:
  "coordinateScaleCalculator widening_request =
     \<lparr>limit = \<lparr>limit_min = Fin 0, limit_max = Fin 120\<rparr>, step = Fin 20, stepCount = Fin 6\<rparr>"
  using coordinateScaleCalculator_eval
      [where opts = widening_request and a = 0 and b = 101 and w = 264
         and r = "101/3" and k = 1 and s = 20 and lo = 0 and hi = 120]
  by (simp add: widening_request_def)

lemma renormalize_widening_request:
  "renormalize widening_request =
     \<lparr>opt_min = Fin 0, opt_max = Fin 120, opt_offsetSize = Fin 264,
      opt_stepCount = None, opt_minimumStepSize = None\<rparr>"
  by (simp add: renormalize_def widening_request_result) (simp add: widening_request_def)

lemma renormalize_widening_request_result:
  "coordinateScaleCalculator (renormalize widening_request) =
     \<lparr>limit = \<lparr>limit_min = Fin 0, limit_max = Fin 150\<rparr>, step = Fin 50, stepCount = Fin 3\<rparr>"
  using coordinateScaleCalculator_eval
      [where opts = "renormalize widening_request" and a = 0 and b = 120 and w = 264
         and r = 40 and k = 1 and s = 50 and lo = 0 and hi = 150]
  by (simp add: renormalize_widening_request)

lemma renormalize_scenario_A:
  "renormalize scenario_A =
     \<lparr>opt_min = Fin 0, opt_max = Fin 200, opt_offsetSize = Fin 264,
      opt_stepCount = None, opt_minimumStepSize = None\<rparr>"
  by (simp add: renormalize_def scenario_A_result) (simp add: scenario_A_def)

lemma renormalize_scenario_A_result:
  "coordinateScaleCalculator (renormalize scenario_A) =
     \<lparr>limit = \<lparr>limit_min = Fin 0, limit_max = Fin 200\<rparr>, step = Fin 50, stepCount = Fin 4\<rparr>"
  using coordinateScaleCalculator_eval
      [where opts = "renormalize scenario_A" and a = 0 and b = 200 and w = 264
         and r = "200/3" and k = 1 and s = 50 and lo = 0 and hi = 200]
  by (simp add: renormalize_scenario_A)

lemma zero_offset_request_result:
  "coordinateScaleCalculator zero_offset_request =
     \<lparr>limit = \<lparr>limit_min = Fin 0, limit_max = NaN\<rparr>, step = NaN, stepCount = NaN\<rparr>"
proof -
  have d: "getDigits (Fin 155) = Fin 100" using getDigits_eval [of 2 155] by simp
  have n: "getDigits NaN = NaN" by (simp add: getDigits_def)
  have r: "getRoughScale (Fin 0) (Fin 155) (Fin 0) None None =
     \<lparr>limit = \<lparr>limit_min = Fin 0, limit_max = Fin 155\<rparr>, step = NaN, stepCount = Fin 0\<rparr>"
    by (simp add: getRoughScale_def Let_def isNumber_def jsub_def DEFAULT_PIXELS_PER_STEP_def
        inf_of_sign_def)
  have s: "getNormalizedStep NaN = NaN"
    by (simp add: getNormalizedStep_def n getSnappedNumber_cases)
  have l: "getNormalizedLimit (Fin 0) (Fin 155) NaN = \<lparr>limit_min = Fin 0, limit_max = NaN\<rparr>"
    by (simp add: getNormalizedLimit_def Let_def d n jgt_def)
  have c: "getNormalizedStepCount NaN NaN = NaN"
    by (simp add: getNormalizedStepCount_def Let_def n)
  show ?thesis
    by (simp add: coordinateScaleCalculator_def zero_offset_request_def r
        getNormalizedScale_def Let_def s l c jsub_def)
qed

section \<open>Results at concrete requests\<close>

text \<open>
  C1. Scenario A, \<open>min = 0\<close>, \<open>max = 155\<close>, \<open>offsetSize = 264\<close>: the result is
  not the step 20 with the limit \<open>0 .. 160\<close>.
\<close>

theorem scenario_A_not_20_160:
  "\<not> (step (coordinateScaleCalculator scenario_A) = Fin 20 \<and>
      limit (coordinateScaleCalculator scenario_A) = \<lparr>limit_min = Fin 0, limit_max = Fin 160\<rparr>)"
  by (simp add: scenario_A_result)

text \<open>
  C1, as amended: in scenario A the step count is \<open>ceil (264 / 88) = 3\<close>, the rough
  step is \<open>155 / 3\<close>, of magnitude 10, and \<open>5.1666...\<close> snaps to 5: the result has
  step 50, limit \<open>0 .. 200\<close> and step count 4.
\<close>

theorem scenario_A_scale:
  "step (coordinateScaleCalculator scenario_A) = Fin 50 \<and>
   limit (coordinateScaleCalculator scenario_A) = \<lparr>limit_min = Fin 0, limit_max = Fin 200\<rparr> \<and>
   stepCount (coordinateScaleCalculator scenario_A) = Fin 4"
  by (simp add: scenario_A_result)

text \<open>
  C6. A request with \<open>min > max\<close> does not fail: \<open>min = 10\<close>, \<open>max = 0\<close>,
  \<open>offsetSize = 264\<close> returns a scale, with the limit \<open>10 .. 0\<close>.
\<close>

theorem inverted_request_returns:
  "jgt (opt_min inverted_request) (opt_max inverted_request) \<and>
   coordinateScaleCalculator_call inverted_request =
     Inr \<lparr>limit = \<lparr>limit_min = Fin 10, limit_max = Fin 0\<rparr>, step = Fin 2, stepCount = Fin 5\<rparr>"
  by (simp add: coordinateScaleCalculator_call_def inverted_request_result)
     (simp add: inverted_request_def jgt_def)

text \<open>
  C6, as amended: the calculator tests none of its arguments and never fails. Every
  request returns a scale; a request with \<open>min > max\<close> returns a scale with an
  inverted limit, and a request with \<open>offsetSize = 0\<close> a scale whose step is NaN.
\<close>

theorem no_validation:
  "(\<exists>r. coordinateScaleCalculator_call opts = Inr r) \<and>
   coordinateScaleCalculator_call inverted_request =
     Inr \<lparr>limit = \<lparr>limit_min = Fin 10, limit_max = Fin 0\<rparr>, step = Fin 2, stepCount = Fin 5\<rparr> \<and>
   coordinateScaleCalculator_call zero_offset_request =
     Inr \<lparr>limit = \<lparr>limit_min = Fin 0, limit_max = NaN\<rparr>, step = NaN, stepCount = NaN\<rparr>"
  by (simp add: coordinateScaleCalculator_call_def inverted_request_result
      zero_offset_request_result)

text \<open>
  C8. Feeding the limit of a result back is not idempotent: \<open>min = 0\<close>,
  \<open>max = 101\<close>, \<open>offsetSize = 264\<close> gives step 20 and limit \<open>0 .. 120\<close>; the
  request \<open>0 .. 120\<close> on the same pixels gives step 50 and limit \<open>0 .. 150\<close>.
\<close>

theorem renormalize_changes_step:
  "jle (opt_min widening_request) (opt_max widening_request) \<and>
   jgt (opt_offsetSize widening_request) (Fin 0) \<and>
   step (coordinateScaleCalculator widening_request) = Fin 20 \<and>
   limit (coordinateScaleCalculator widening_request) =
     \<lparr>limit_min = Fin 0, limit_max = Fin 120\<rparr> \<and>
   step (coordinateScaleCalculator (renormalize widening_request)) = Fin 50 \<and>
   limit (coordinateScaleCalculator (renormalize widening_request)) =
     \<lparr>limit_min = Fin 0, limit_max = Fin 150\<rparr> \<and>
   step (coordinateScaleCalculator (renormalize widening_request)) \<noteq>
     step (coordinateScaleCalculator widening_request) \<and>
   \<not> jle (limit_max (limit (coordinateScaleCalculator (renormalize widening_request))))
         (limit_max (limit (coordinateScaleCalculator widening_request)))"
  by (simp add: widening_request_result renormalize_widening_request_result)
     (simp add: widening_request_def jgt_def)

text \<open>
  C8, as amended: feeding the limit of a result back is idempotent for some requests
  and not for others. Scenario A (step 50, limit \<open>0 .. 200\<close>) fed back gives step 50
  and limit \<open>0 .. 200\<close> again; \<open>min = 0\<close>, \<open>max = 101\<close>, \<open>offsetSize = 264\<close>
  (step 20, limit \<open>0 .. 120\<close>) fed back gives step 50 and limit \<open>0 .. 150\<close>.
\<close>

theorem renormalize_examples:
  "coordinateScaleCalculator (renormalize scenario_A) = coordinateScaleCalculator scenario_A \<and>
   coordinateScaleCalculator (renormalize scenario_A) =
     \<lparr>limit = \<lparr>limit_min = Fin 0, limit_max = Fin 200\<rparr>, step = Fin 50, stepCount = Fin 4\<rparr> \<and>
   coordinateScaleCalculator widening_request =
     \<lparr>limit = \<lparr>limit_min = Fin 0, limit_max = Fin 120\<rparr>, step = Fin 20, stepCount = Fin 6\<rparr> \<and>
   coordinateScaleCalculator (renormalize widening_request) =
     \<lparr>limit = \<lparr>limit_min = Fin 0, limit_max = Fin 150\<rparr>, step = Fin 50, stepCount = Fin 3\<rparr>"
  by (simp add: widening_request_result renormalize_widening_request_result
      renormalize_scenario_A_result scenario_A_result)

end
